theory Spec2Isabelle
  imports Main
begin

section \<open>Python text primitives used by the detector\<close>

text \<open>
  Text is modelled as \<open>string\<close>; a character stands for a code point below 256.
  The functions below follow the behaviour of the Python built-ins the source calls:
  \<^verbatim>\<open>sub in s\<close>, \<^verbatim>\<open>s.strip()\<close>, \<^verbatim>\<open>s.split()\<close>, \<^verbatim>\<open>s.split(sep)\<close>,
  \<^verbatim>\<open>s.lower()\<close> and \<^verbatim>\<open>int(s)\<close>.
\<close>

fun starts_with :: "string \<Rightarrow> string \<Rightarrow> bool" where
  "starts_with s [] = True"
| "starts_with [] (p # ps) = False"
| "starts_with (c # cs) (p # ps) = (c = p \<and> starts_with cs ps)"

text \<open>\<^verbatim>\<open>sub in s\<close>: \<open>sub\<close> occurs in \<open>s\<close> as a contiguous piece.\<close>

fun py_in :: "string \<Rightarrow> string \<Rightarrow> bool" where
  "py_in sub [] = (sub = [])"
| "py_in sub (c # cs) = (starts_with (c # cs) sub \<or> py_in sub cs)"

definition whitespace_chars :: "char list" where
  "whitespace_chars =
     [CHR 0x09, CHR 0x0A, CHR 0x0B, CHR 0x0C, CHR 0x0D,
      CHR 0x1C, CHR 0x1D, CHR 0x1E, CHR 0x1F, CHR 0x20, CHR 0x85, CHR 0xA0]"

definition py_isspace :: "char \<Rightarrow> bool" where
  "py_isspace c = (c \<in> set whitespace_chars)"

definition py_strip :: "string \<Rightarrow> string" where
  "py_strip s = rev (dropWhile py_isspace (rev (dropWhile py_isspace s)))"

text \<open>\<^verbatim>\<open>s.split()\<close>: the maximal runs of non-whitespace characters, in order.\<close>

fun split_ws :: "string \<Rightarrow> string \<Rightarrow> string list" where
  "split_ws cur [] = (if cur = [] then [] else [cur])"
| "split_ws cur (c # cs) =
     (if py_isspace c then (if cur = [] then split_ws [] cs else cur # split_ws [] cs)
      else split_ws (cur @ [c]) cs)"

definition py_split :: "string \<Rightarrow> string list" where
  "py_split s = split_ws [] s"

text \<open>\<^verbatim>\<open>s.split(sep)\<close> for a one-character separator: empty pieces are kept.\<close>

fun split_sep :: "char \<Rightarrow> string \<Rightarrow> string \<Rightarrow> string list" where
  "split_sep sep cur [] = [cur]"
| "split_sep sep cur (c # cs) =
     (if c = sep then cur # split_sep sep [] cs else split_sep sep (cur @ [c]) cs)"

definition py_split_on :: "char \<Rightarrow> string \<Rightarrow> string list" where
  "py_split_on sep s = split_sep sep [] s"

definition py_lower_char :: "char \<Rightarrow> char" where
  "py_lower_char c =
     (let n = (of_char c :: nat)
      in if (65 \<le> n \<and> n \<le> 90) \<or> (192 \<le> n \<and> n \<le> 222 \<and> n \<noteq> 215)
         then char_of (n + 32) else c)"

definition py_lower :: "string \<Rightarrow> string" where
  "py_lower s = map py_lower_char s"

datatype exn = OSError | ValueError | TypeError | IndexError | TclError

definition digit_val :: "char \<Rightarrow> nat option" where
  "digit_val c =
     (let n = (of_char c :: nat) in if 48 \<le> n \<and> n \<le> 57 then Some (n - 48) else None)"

text \<open>
  The digits of a decimal literal; a single underscore may stand between two digits.
  \<open>prev\<close> tells whether the character just read was a digit.
\<close>

fun py_digits :: "nat \<Rightarrow> bool \<Rightarrow> string \<Rightarrow> nat option" where
  "py_digits acc prev [] = (if prev then Some acc else None)"
| "py_digits acc prev (c # cs) =
     (if c = CHR ''_'' then (if prev \<and> cs \<noteq> [] then py_digits acc False cs else None)
      else (case digit_val c of
              Some d \<Rightarrow> py_digits (10 * acc + d) True cs
            | None \<Rightarrow> None))"

text \<open>
  \<^verbatim>\<open>int(s)\<close>: surrounding whitespace, an optional sign, then the digits. The
  whitespace \<^verbatim>\<open>int\<close> skips is narrower than that of \<^verbatim>\<open>strip\<close>: the four
  separators from 0x1C to 0x1F are not skipped. A literal with more than
  4300 digit characters (underscores and sign not counted, leading zeros counted) is
  refused.
\<close>

definition int_space_chars :: "char list" where
  "int_space_chars =
     [CHR 0x09, CHR 0x0A, CHR 0x0B, CHR 0x0C, CHR 0x0D, CHR 0x20, CHR 0x85, CHR 0xA0]"

definition int_isspace :: "char \<Rightarrow> bool" where
  "int_isspace c = (c \<in> set int_space_chars)"

definition int_strip :: "string \<Rightarrow> string" where
  "int_strip s = rev (dropWhile int_isspace (rev (dropWhile int_isspace s)))"

definition int_max_str_digits :: nat where
  "int_max_str_digits = 4300"

definition count_digits :: "string \<Rightarrow> nat" where
  "count_digits s = length (filter (\<lambda>c. digit_val c \<noteq> None) s)"

definition py_int :: "string \<Rightarrow> exn + int" where
  "py_int s =
     (let t = int_strip s;
          r = (case t of
                 [] \<Rightarrow> None
               | c # cs \<Rightarrow>
                   if int_max_str_digits < count_digits t then None
                   else if c = CHR ''-'' then map_option (\<lambda>n. - int n) (py_digits 0 False cs)
                   else if c = CHR ''+'' then map_option int (py_digits 0 False cs)
                   else map_option int (py_digits 0 False t))
      in case r of None \<Rightarrow> Inl ValueError | Some i \<Rightarrow> Inr i)"

section \<open>Exceptions and probes\<close>

text \<open>
  A computation that may raise returns \<open>exn + 'a\<close>, \<open>Inl\<close> carrying the exception.
  \<open>and_then\<close> is sequencing. \<open>try_except body handler\<close> is
  \<^verbatim>\<open>try: body  except: handler\<close>, the handler starting from the state the
  block was entered with. It is used for the blocks that write their state after the
  last operation that can raise, so that a raising body has changed nothing. The
  toolkit block of \<^verbatim>\<open>detect_screen_info\<close> writes in between; it is modelled apart.
  \<open>try_pass body s\<close> is the block whose handler is \<^verbatim>\<open>pass\<close>, entered in state \<open>s\<close>.
\<close>

definition and_then :: "exn + 'a \<Rightarrow> ('a \<Rightarrow> exn + 'b) \<Rightarrow> exn + 'b" where
  "and_then m f = (case m of Inl e \<Rightarrow> Inl e | Inr v \<Rightarrow> f v)"

definition try_except :: "exn + 's \<Rightarrow> exn + 's \<Rightarrow> exn + 's" where
  "try_except body handler = (case body of Inl e \<Rightarrow> handler | Inr s' \<Rightarrow> Inr s')"

definition try_pass :: "exn + 's \<Rightarrow> 's \<Rightarrow> exn + 's" where
  "try_pass body s = try_except body (Inr s)"

text \<open>The result of \<^verbatim>\<open>subprocess.run\<close> when the process could be started.\<close>

record completed =
  returncode :: int
  stdout :: string

text \<open>
  What the detector reads from the machine. A probe that can raise is a sum:
  opening and reading a file, starting a program, and each of the four toolkit calls
  \<^verbatim>\<open>tk.Tk()\<close>, \<^verbatim>\<open>winfo_screenwidth()\<close>, \<^verbatim>\<open>winfo_screenheight()\<close> and
  \<^verbatim>\<open>destroy()\<close>.
  \<^verbatim>\<open>glob.glob\<close>, \<^verbatim>\<open>os.environ.get\<close> and \<^verbatim>\<open>os.path.exists\<close> do not raise.
\<close>

record host =
  cpuinfo :: "exn + string"
  DESKTOP_SESSION :: "string option"
  XDG_CURRENT_DESKTOP :: "string option"
  device_tree_model :: "exn + string"
  systemd_system :: bool
  event_devices :: "string list"
  udevadm_info :: "string \<Rightarrow> exn + completed"
  mouse_devices :: "string list"
  js_devices :: "string list"
  xrandr :: "exn + completed"
  tk_open :: "exn + unit"
  tk_screenwidth :: "exn + int"
  tk_screenheight :: "exn + int"
  tk_destroy :: "exn + unit"

section \<open>EnvironmentDetector\<close>

record environment =
  type :: string
  is_pi :: bool
  is_desktop :: bool
  is_console :: bool
  has_systemd :: bool
  desktop_environment :: "string option"

record input_methods =
  keyboard :: bool
  mouse :: bool
  touchscreen :: bool
  gamepad :: bool
  joystick_devices :: "string list"

record screen_info =
  width :: int
  height :: int
  dpi :: int
  is_small_screen :: bool
  is_touch_optimized :: bool

subsection \<open>detect_environment\<close>

text \<open>
  An open file is the text not yet read; \<^verbatim>\<open>f.read()\<close> returns all of it and leaves
  the handle at the end of the file.
\<close>

type_synonym file_handle = string

definition f_read :: "file_handle \<Rightarrow> string \<times> file_handle" where
  "f_read f = (f, [])"

text \<open>\<^verbatim>\<open>'BCM' in f.read() or 'Raspberry' in f.read()\<close> on a freshly opened file.\<close>

definition cpuinfo_test :: "file_handle \<Rightarrow> bool" where
  "cpuinfo_test f =
     (let (s1, f1) = f_read f
      in if py_in ''BCM'' s1 then True
         else (let (s2, f2) = f_read f1 in py_in ''Raspberry'' s2))"

definition check_pi :: "host \<Rightarrow> environment \<Rightarrow> exn + environment" where
  "check_pi h env =
     try_pass
       (and_then (cpuinfo h) (\<lambda>f.
          if cpuinfo_test f then Inr (env\<lparr>is_pi := True, type := ''raspberry_pi''\<rparr>)
          else Inr env))
       env"

text \<open>\<^verbatim>\<open>a or b\<close> on values that are \<^verbatim>\<open>None\<close> or a string: the empty string is falsy.\<close>

definition py_or :: "string option \<Rightarrow> string option \<Rightarrow> string option" where
  "py_or a b = (case a of None \<Rightarrow> b | Some s \<Rightarrow> if s = [] then b else Some s)"

definition check_desktop :: "host \<Rightarrow> environment \<Rightarrow> environment" where
  "check_desktop h env =
     (case py_or (DESKTOP_SESSION h) (XDG_CURRENT_DESKTOP h) of
        None \<Rightarrow> env
      | Some desktop_env \<Rightarrow>
          if desktop_env = [] then env
          else (let env1 = env\<lparr>is_desktop := True,
                                 desktop_environment := Some (py_lower desktop_env)\<rparr>
                in if type env1 = ''unknown'' then env1\<lparr>type := ''desktop''\<rparr> else env1))"

definition console_names :: "string list" where
  "console_names = [''rg'', ''anbernic'', ''powkiddy'', ''retroid'']"

definition check_console :: "host \<Rightarrow> environment \<Rightarrow> exn + environment" where
  "check_console h env =
     try_pass
       (and_then (device_tree_model h) (\<lambda>text.
          let model = py_lower text
          in if list_ex (\<lambda>console. py_in console model) console_names
             then Inr (env\<lparr>is_console := True, type := ''gaming_console''\<rparr>)
             else Inr env))
       env"

definition resolve_unknown :: "environment \<Rightarrow> environment" where
  "resolve_unknown env =
     (if type env = ''unknown''
      then (if is_desktop env then env\<lparr>type := ''desktop''\<rparr>
            else if is_pi env then env\<lparr>type := ''raspberry_pi''\<rparr>
            else env\<lparr>type := ''minimal_linux''\<rparr>)
      else env)"

definition initial_environment :: environment where
  "initial_environment =
     \<lparr>type = ''unknown'', is_pi = False, is_desktop = False, is_console = False,
      has_systemd = False, desktop_environment = None\<rparr>"

definition detect_environment :: "host \<Rightarrow> exn + environment" where
  "detect_environment h =
     and_then (check_pi h initial_environment) (\<lambda>env1.
     let env2 = check_desktop h env1 in
     and_then (check_console h env2) (\<lambda>env3.
     let env4 = env3\<lparr>has_systemd := systemd_system h\<rparr>
     in Inr (resolve_unknown env4)))"

subsection \<open>detect_input_methods\<close>

text \<open>
  The loop over the event devices: a device whose query raises is passed over, the
  first device reporting the touchscreen property ends the loop.
\<close>

fun find_touchscreen :: "(string \<Rightarrow> exn + completed) \<Rightarrow> string list \<Rightarrow> bool" where
  "find_touchscreen query [] = False"
| "find_touchscreen query (device # devices) =
     (case try_pass
             (and_then (query device) (\<lambda>result.
                Inr (py_in ''ID_INPUT_TOUCHSCREEN=1'' (stdout result))))
             False of
        Inr True \<Rightarrow> True
      | _ \<Rightarrow> find_touchscreen query devices)"

definition initial_methods :: input_methods where
  "initial_methods =
     \<lparr>keyboard = True, mouse = False, touchscreen = False, gamepad = False,
      joystick_devices = []\<rparr>"

definition detect_input_methods :: "host \<Rightarrow> exn + input_methods" where
  "detect_input_methods h =
     and_then
       (try_pass
          (Inr (initial_methods
                  \<lparr>touchscreen := find_touchscreen (udevadm_info h) (event_devices h)\<rparr>))
          initial_methods) (\<lambda>methods1.
     let methods2 = methods1\<lparr>mouse := length (mouse_devices h) > 0\<rparr>;
         joysticks = js_devices h
     in Inr (methods2\<lparr>gamepad := length joysticks > 0, joystick_devices := joysticks\<rparr>))"

subsection \<open>detect_screen_info\<close>

text \<open>
  The inner loop over the words of the chosen line. The first word holding both an
  \<open>x\<close> and a \<open>+\<close> whose part before the first \<open>+\<close> still holds an \<open>x\<close> decides:
  \<^verbatim>\<open>width, height = map(int, resolution.split('x'))\<close> raises unless there are exactly
  two pieces and both are integers.
\<close>

fun scan_parts :: "string list \<Rightarrow> exn + (int \<times> int) option" where
  "scan_parts [] = Inr None"
| "scan_parts (part # parts) =
     (if py_in ''x'' part \<and> py_in ''+'' part
      then (case py_split_on CHR ''+'' part of
              [] \<Rightarrow> Inl IndexError
            | resolution # rest \<Rightarrow>
                if py_in ''x'' resolution
                then (case map py_int (py_split_on CHR ''x'' resolution) of
                        [Inr w, Inr h] \<Rightarrow> Inr (Some (w, h))
                      | _ \<Rightarrow> Inl ValueError)
                else scan_parts parts)
      else scan_parts parts)"

text \<open>The outer loop: the first line naming a connected output is the only one read.\<close>

fun scan_lines :: "string list \<Rightarrow> exn + (int \<times> int) option" where
  "scan_lines [] = Inr None"
| "scan_lines (line # lines) =
     (if py_in '' connected primary'' line \<or> py_in '' connected '' line
      then scan_parts (py_split line)
      else scan_lines lines)"

definition initial_info :: screen_info where
  "initial_info =
     \<lparr>width = 1024, height = 768, dpi = 96, is_small_screen = False,
      is_touch_optimized = False\<rparr>"

definition xrandr_resolution :: "string \<Rightarrow> exn + (int \<times> int) option" where
  "xrandr_resolution out = scan_lines (py_split_on CHR 0x0A out)"

definition query_xrandr :: "host \<Rightarrow> screen_info \<Rightarrow> exn + screen_info" where
  "query_xrandr h info =
     and_then (xrandr h) (\<lambda>result.
     and_then (xrandr_resolution (stdout result)) (\<lambda>found.
       case found of
         None \<Rightarrow> Inr info
       | Some (w, ht) \<Rightarrow> Inr (info\<lparr>width := w, height := ht\<rparr>)))"

text \<open>
  The toolkit block: the state it has reached, and the exception that ended it if one
  did. The width is stored before the height is asked for, so a failure part-way
  leaves what was stored. The handler is \<^verbatim>\<open>pass\<close>: detection goes on from the
  state reached.
\<close>

definition tkinter_block :: "host \<Rightarrow> screen_info \<Rightarrow> screen_info \<times> exn option" where
  "tkinter_block h info =
     (case tk_open h of
        Inl e \<Rightarrow> (info, Some e)
      | Inr root \<Rightarrow>
     (case tk_screenwidth h of
        Inl e \<Rightarrow> (info, Some e)
      | Inr w \<Rightarrow>
     let info1 = info\<lparr>width := w\<rparr> in
     (case tk_screenheight h of
        Inl e \<Rightarrow> (info1, Some e)
      | Inr ht \<Rightarrow>
     let info2 = info1\<lparr>height := ht\<rparr> in
     (case tk_destroy h of
        Inl e \<Rightarrow> (info2, Some e)
      | Inr done \<Rightarrow> (info2, None)))))"

definition query_tkinter :: "host \<Rightarrow> screen_info \<Rightarrow> exn + screen_info" where
  "query_tkinter h info = Inr (fst (tkinter_block h info))"

definition detect_screen_info ::
  "environment \<Rightarrow> input_methods \<Rightarrow> host \<Rightarrow> exn + screen_info" where
  "detect_screen_info env methods h =
     and_then
       (try_except (query_xrandr h initial_info) (query_tkinter h initial_info)) (\<lambda>info1.
     let info2 = info1\<lparr>is_small_screen := (width info1 \<le> 800 \<or> height info1 \<le> 480)\<rparr>
     in Inr (info2\<lparr>is_touch_optimized :=
                      ((touchscreen methods \<and> is_small_screen info2) \<or> is_pi env)\<rparr>))"

subsection \<open>The constructor\<close>

record detector =
  environment :: environment
  input_methods :: input_methods
  screen_info :: screen_info

definition EnvironmentDetector :: "host \<Rightarrow> exn + detector" where
  "EnvironmentDetector h =
     and_then (detect_environment h) (\<lambda>env.
     and_then (detect_input_methods h) (\<lambda>methods.
     and_then (detect_screen_info env methods h) (\<lambda>info.
       Inr \<lparr>environment = env, input_methods = methods, screen_info = info\<rparr>)))"

section \<open>AdaptiveHamsterGUI\<close>

subsection \<open>setup_window\<close>

text \<open>
  What \<^verbatim>\<open>setup_window\<close> asks of the toolkit and the mode it stores:
  the requested size, whether the window is full screen, whether it is centred, the
  minimum size if one is set, and \<^verbatim>\<open>self.window_mode\<close>.
\<close>

record window =
  geometry :: "int \<times> int"
  fullscreen :: bool
  centered :: bool
  minsize :: "(int \<times> int) option"
  window_mode :: string

definition setup_window :: "environment \<Rightarrow> screen_info \<Rightarrow> window" where
  "setup_window env screen =
     (if type env = ''gaming_console''
      then \<lparr>geometry = (800, 480), fullscreen = True, centered = False, minsize = None,
            window_mode = ''fullscreen_console''\<rparr>
      else if type env = ''raspberry_pi'' \<and> is_touch_optimized screen
      then (if is_small_screen screen
            then \<lparr>geometry = (width screen, height screen), fullscreen = True,
                  centered = False, minsize = None, window_mode = ''touchscreen''\<rparr>
            else \<lparr>geometry = (800, 600), fullscreen = False, centered = True,
                  minsize = None, window_mode = ''touchscreen''\<rparr>)
      else if type env = ''desktop''
      then \<lparr>geometry = (1000, 700), fullscreen = False, centered = True,
            minsize = Some (800, 600), window_mode = ''desktop''\<rparr>
      else \<lparr>geometry = (800, 600), fullscreen = False, centered = True, minsize = None,
            window_mode = ''minimal''\<rparr>)"

subsection \<open>get_font_size\<close>

definition get_font_size :: "screen_info \<Rightarrow> int \<Rightarrow> int" where
  "get_font_size screen base_size =
     (if is_touch_optimized screen then base_size + 4
      else if is_small_screen screen then base_size + 2
      else base_size)"

subsection \<open>load_config and save_config\<close>

text \<open>
  A JSON value as \<^verbatim>\<open>json.load\<close> returns it. An object is the list of its items in
  order, as a Python dict keeps them. The preference file is taken at the level of the
  value it holds: \<^verbatim>\<open>json.dump\<close> stores a value and \<^verbatim>\<open>json.load\<close> returns the
  stored value.
\<close>

datatype json =
    JNull
  | JBool bool
  | JNum int
  | JStr string
  | JList "json list"
  | JObj "(string \<times> json) list"

text \<open>\<^verbatim>\<open>d[key] = v\<close> on a dict: an existing key keeps its place, a new key goes last.\<close>

fun dict_set :: "'k \<Rightarrow> 'v \<Rightarrow> ('k \<times> 'v) list \<Rightarrow> ('k \<times> 'v) list" where
  "dict_set key v [] = [(key, v)]"
| "dict_set key v ((k, x) # items) =
     (if k = key then (key, v) # items else (k, x) # dict_set key v items)"













subsection \<open>check_system_status\<close>

text \<open>The external queries of a status poll; each may fail to start.\<close>

record status_host =
  systemctl_is_active :: "string \<Rightarrow> exn + completed"
  hostname_I :: "exn + completed"
  which :: "string \<Rightarrow> exn + completed"
  js0_exists :: bool

datatype status_value = Flag bool | Address "string option"

type_synonym status_info = "(string \<times> status_value) list"

fun check_services ::
  "(string \<Rightarrow> exn + completed) \<Rightarrow> string list \<Rightarrow> status_info \<Rightarrow> exn + status_info" where
  "check_services query [] info = Inr info"
| "check_services query (service # rest) info =
     and_then (query service) (\<lambda>result.
       check_services query rest
         (dict_set service (Flag (py_strip (stdout result) = ''active'')) info))"

definition check_network :: "status_host \<Rightarrow> status_info \<Rightarrow> exn + status_info" where
  "check_network h info =
     try_except
       (and_then (hostname_I h) (\<lambda>result.
        and_then
          (if py_strip (stdout result) \<noteq> []
           then (case py_split (py_strip (stdout result)) of
                   [] \<Rightarrow> Inl IndexError
                 | first # others \<Rightarrow> Inr (Some first))
           else Inr None) (\<lambda>ip.
        Inr (dict_set ''ip'' (Address ip)
               (dict_set ''network'' (Flag (ip \<noteq> None \<and> ip \<noteq> Some [])) info)))))
       (Inr (dict_set ''ip'' (Address None) (dict_set ''network'' (Flag False) info)))"

fun check_apps ::
  "(string \<Rightarrow> exn + completed) \<Rightarrow> string list \<Rightarrow> status_info \<Rightarrow> exn + status_info" where
  "check_apps query [] info = Inr info"
| "check_apps query (app # rest) info =
     and_then (query app) (\<lambda>result.
       check_apps query rest (dict_set app (Flag (returncode result = 0)) info))"

text \<open>
  \<^verbatim>\<open>update_status\<close> of the adaptive window: the snapshot handed to
  \<^verbatim>\<open>update_status_display\<close>, or \<open>None\<close> when the outer handler is reached and
  nothing is handed over.
\<close>

definition update_status :: "status_host \<Rightarrow> status_info option" where
  "update_status h =
     (case and_then (check_services (systemctl_is_active h) [''ssh'', ''bluetooth''] []) (\<lambda>info1.
           and_then (check_network h info1) (\<lambda>info2.
           check_apps (which h) [''direwolf'', ''qsstv''] info2)) of
        Inl e \<Rightarrow> None
      | Inr info \<Rightarrow> Some info)"

text \<open>
  \<^verbatim>\<open>update_status\<close> of the plain window (hamster-gui.py) writes each label as soon
  as its query returns; the result is the list of labels written, in order, up to the
  point where the outer handler is reached.
\<close>

definition active_text :: "completed \<Rightarrow> string" where
  "active_text result = (if py_strip (stdout result) = ''active'' then ''Active'' else ''Inactive'')"

definition network_text :: "status_host \<Rightarrow> string" where
  "network_text h =
     (case hostname_I h of
        Inl e \<Rightarrow> ''Disconnected''
      | Inr result \<Rightarrow>
          (case py_split (py_strip (stdout result)) of
             [] \<Rightarrow> ''Disconnected''
           | ip # others \<Rightarrow> ''Connected ('' @ ip @ '')''))"

definition installed_text :: "completed \<Rightarrow> string" where
  "installed_text result = (if returncode result = 0 then ''Installed'' else ''Not Installed'')"

definition gui_update_status :: "status_host \<Rightarrow> (string \<times> string) list" where
  "gui_update_status h =
     (case systemctl_is_active h ''ssh'' of
        Inl e \<Rightarrow> []
      | Inr ssh \<Rightarrow>
     let labels1 = [(''ssh'', active_text ssh)] in
     (case systemctl_is_active h ''bluetooth'' of
        Inl e \<Rightarrow> labels1
      | Inr bt \<Rightarrow>
     let labels2 = labels1 @ [(''bluetooth'', active_text bt)];
         labels3 = labels2 @ [(''network'', network_text h)];
         labels4 = labels3 @ [(''controller'', if js0_exists h then ''Detected'' else ''Not Found'')]
     in
     (case which h ''direwolf'' of
        Inl e \<Rightarrow> labels4
      | Inr dw \<Rightarrow>
     let labels5 = labels4 @ [(''direwolf'', installed_text dw)] in
     (case which h ''qsstv'' of
        Inl e \<Rightarrow> labels5
      | Inr qs \<Rightarrow> labels5 @ [(''qsstv'', installed_text qs)]))))"

section \<open>The detection signals\<close>

text \<open>
  The three conditions under which \<^verbatim>\<open>detect_environment\<close> sets a class flag, read
  off its three blocks.
\<close>

definition pi_signal :: "host \<Rightarrow> bool" where
  "pi_signal h = (case cpuinfo h of Inl e \<Rightarrow> False | Inr f \<Rightarrow> cpuinfo_test f)"

definition desktop_value :: "host \<Rightarrow> string option" where
  "desktop_value h = py_or (DESKTOP_SESSION h) (XDG_CURRENT_DESKTOP h)"

definition desktop_signal :: "host \<Rightarrow> bool" where
  "desktop_signal h = (case desktop_value h of None \<Rightarrow> False | Some s \<Rightarrow> s \<noteq> [])"

definition console_signal :: "host \<Rightarrow> bool" where
  "console_signal h =
     (case device_tree_model h of
        Inl e \<Rightarrow> False
      | Inr text \<Rightarrow> list_ex (\<lambda>console. py_in console (py_lower text)) console_names)"

section \<open>Closed form of the merge loop\<close>


section \<open>Sample inputs\<close>

text \<open>
  A machine on which every probe fails, variants of it on which single probes answer
  (\<open>tk_host\<close>: the toolkit answers every call; \<open>width_only_host\<close>: the toolkit
  answers the width and fails on the height), and the descriptor with every field at
  its default.
\<close>

definition bare_host :: host where
  "bare_host =
     \<lparr>cpuinfo = Inl OSError, DESKTOP_SESSION = None, XDG_CURRENT_DESKTOP = None,
      device_tree_model = Inl OSError, systemd_system = False,
      event_devices = [''/dev/input/event0''], udevadm_info = (\<lambda>device. Inl OSError),
      mouse_devices = [], js_devices = [], xrandr = Inl OSError,
      tk_open = Inl TclError, tk_screenwidth = Inl TclError, tk_screenheight = Inl TclError,
      tk_destroy = Inl TclError\<rparr>"

definition tk_host :: "int \<Rightarrow> int \<Rightarrow> host" where
  "tk_host w ht =
     bare_host\<lparr>tk_open := Inr (), tk_screenwidth := Inr w, tk_screenheight := Inr ht,
               tk_destroy := Inr ()\<rparr>"

definition width_only_host :: host where
  "width_only_host = bare_host\<lparr>tk_open := Inr (), tk_screenwidth := Inr 800\<rparr>"

definition default_detector :: detector where
  "default_detector =
     \<lparr>environment = initial_environment\<lparr>type := ''minimal_linux''\<rparr>,
      input_methods = initial_methods,
      screen_info = initial_info\<rparr>"

definition pi_console_host :: host where
  "pi_console_host =
     bare_host\<lparr>cpuinfo := Inr ''Hardware : BCM2835'',
               device_tree_model := Inr ''Anbernic RG35XX''\<rparr>"

definition pi_desktop_host :: host where
  "pi_desktop_host =
     bare_host\<lparr>cpuinfo := Inr ''Hardware : BCM2835'', DESKTOP_SESSION := Some ''LXDE-pi''\<rparr>"

definition all_signals_host :: host where
  "all_signals_host = pi_desktop_host\<lparr>device_tree_model := Inr ''Anbernic RG35XX''\<rparr>"

definition raspberry_only_host :: host where
  "raspberry_only_host = bare_host\<lparr>cpuinfo := Inr ''Model : Raspberry Pi 4 Model B''\<rparr>"

definition small_tk_host :: host where
  "small_tk_host = tk_host 800 480"

definition two_output_host :: host where
  "two_output_host =
     bare_host\<lparr>xrandr := Inr \<lparr>returncode = 0,
        stdout = ''Screen 0: current 3286 x 1080'' @ [CHR 0x0A] @
                 ''HDMI-1 connected 1920x1080+1366+0 (normal) 527mm x 296mm'' @ [CHR 0x0A] @
                 ''eDP-1 connected primary 1366x768+0+0 (normal) 344mm x 194mm'' @ [CHR 0x0A]\<rparr>\<rparr>"

definition garbled_xrandr_host :: host where
  "garbled_xrandr_host =
     (tk_host 1280 720)
       \<lparr>xrandr := Inr \<lparr>returncode = 0, stdout = ''eDP-1 connected primary axb+0+0''\<rparr>\<rparr>"





text \<open>
  Status polls: the ssh query cannot be started, the address query cannot be started,
  the ssh service is reported inactive.
\<close>

definition ssh_query_raises_host :: status_host where
  "ssh_query_raises_host =
     \<lparr>systemctl_is_active =
        (\<lambda>service. if service = ''ssh'' then Inl OSError
                   else Inr \<lparr>returncode = 0, stdout = ''active'' @ [CHR 0x0A]\<rparr>),
      hostname_I = Inr \<lparr>returncode = 0, stdout = ''192.168.1.20 '' @ [CHR 0x0A]\<rparr>,
      which = (\<lambda>app. Inr \<lparr>returncode = 0, stdout = []\<rparr>),
      js0_exists = True\<rparr>"

definition hostname_raises_host :: status_host where
  "hostname_raises_host =
     \<lparr>systemctl_is_active = (\<lambda>service. Inr \<lparr>returncode = 0, stdout = ''active'' @ [CHR 0x0A]\<rparr>),
      hostname_I = Inl OSError,
      which = (\<lambda>app. Inr \<lparr>returncode = 0, stdout = []\<rparr>),
      js0_exists = True\<rparr>"

definition ssh_inactive_host :: status_host where
  "ssh_inactive_host =
     \<lparr>systemctl_is_active =
        (\<lambda>service. if service = ''ssh''
                   then Inr \<lparr>returncode = 3, stdout = ''inactive'' @ [CHR 0x0A]\<rparr>
                   else Inr \<lparr>returncode = 0, stdout = ''active'' @ [CHR 0x0A]\<rparr>),
      hostname_I = Inr \<lparr>returncode = 0, stdout = ''192.168.1.20 '' @ [CHR 0x0A]\<rparr>,
      which = (\<lambda>app. Inr \<lparr>returncode = 0, stdout = []\<rparr>),
      js0_exists = True\<rparr>"

section \<open>Properties of the text primitives\<close>

lemma starts_with_iff: "starts_with s p \<longleftrightarrow> (\<exists>suf. s = p @ suf)"
  by (induction s p rule: starts_with.induct) auto

lemma py_in_iff: "py_in sub s \<longleftrightarrow> (\<exists>pre suf. s = pre @ sub @ suf)"
proof (induction s)
  case Nil
  show ?case by auto
next
  case (Cons c cs)
  show ?case
  proof
    assume "py_in sub (c # cs)"
    then consider "starts_with (c # cs) sub" | "py_in sub cs" by auto
    then show "\<exists>pre suf. c # cs = pre @ sub @ suf"
    proof cases
      case 1
      then obtain suf where "c # cs = sub @ suf" by (auto simp: starts_with_iff)
      then have "c # cs = [] @ sub @ suf" by simp
      then show ?thesis by blast
    next
      case 2
      then obtain pre suf where "cs = pre @ sub @ suf" using Cons.IH by blast
      then have "c # cs = (c # pre) @ sub @ suf" by simp
      then show ?thesis by blast
    qed
  next
    assume "\<exists>pre suf. c # cs = pre @ sub @ suf"
    then obtain pre suf where eq: "c # cs = pre @ sub @ suf" by blast
    show "py_in sub (c # cs)"
    proof (cases pre)
      case Nil
      then have "starts_with (c # cs) sub" using eq by (auto simp: starts_with_iff)
      then show ?thesis by simp
    next
      case (Cons a pre')
      then have "cs = pre' @ sub @ suf" using eq by simp
      then have "py_in sub cs" using Cons.IH by blast
      then show ?thesis by simp
    qed
  qed
qed

section \<open>Closed forms of the detection steps\<close>

lemma cpuinfo_test_eq: "cpuinfo_test f = py_in ''BCM'' f"
  by (simp add: cpuinfo_test_def f_read_def)

lemma check_pi_eq:
  "check_pi h env = Inr (if pi_signal h then env\<lparr>is_pi := True, type := ''raspberry_pi''\<rparr> else env)"
  by (simp add: check_pi_def pi_signal_def try_pass_def try_except_def and_then_def split: sum.splits)

lemma check_console_eq:
  "check_console h env =
     Inr (if console_signal h then env\<lparr>is_console := True, type := ''gaming_console''\<rparr> else env)"
  by (simp add: check_console_def console_signal_def try_pass_def try_except_def and_then_def
      split: sum.splits)

lemma check_desktop_eq:
  "check_desktop h env =
     (if desktop_signal h
      then env\<lparr>is_desktop := True,
               desktop_environment := map_option py_lower (desktop_value h),
               type := (if type env = ''unknown'' then ''desktop'' else type env)\<rparr>
      else env)"
  by (auto simp add: check_desktop_def desktop_signal_def desktop_value_def Let_def
      split: option.splits)

lemma detect_environment_eq:
  "detect_environment h =
     Inr \<lparr>type = (if console_signal h then ''gaming_console''
                  else if pi_signal h then ''raspberry_pi''
                  else if desktop_signal h then ''desktop''
                  else ''minimal_linux''),
          is_pi = pi_signal h,
          is_desktop = desktop_signal h,
          is_console = console_signal h,
          has_systemd = systemd_system h,
          desktop_environment =
            (if desktop_signal h then map_option py_lower (desktop_value h) else None)\<rparr>"
  by (simp add: detect_environment_def check_pi_eq check_console_eq check_desktop_eq
      and_then_def resolve_unknown_def initial_environment_def Let_def)

lemma find_touchscreen_all_raise:
  "list_all (\<lambda>device. isl (query device)) devices \<Longrightarrow> \<not> find_touchscreen query devices"
  by (induction devices) (auto simp: try_pass_def try_except_def and_then_def split: sum.splits)

lemma detect_input_methods_eq:
  "detect_input_methods h =
     Inr \<lparr>keyboard = True, mouse = (mouse_devices h \<noteq> []),
          touchscreen = find_touchscreen (udevadm_info h) (event_devices h),
          gamepad = (js_devices h \<noteq> []), joystick_devices = js_devices h\<rparr>"
  by (simp add: detect_input_methods_def try_pass_def try_except_def and_then_def
      initial_methods_def Let_def)

lemma query_tkinter_eq:
  "query_tkinter h info =
     Inr (case tk_open h of
            Inl e \<Rightarrow> info
          | Inr root \<Rightarrow>
              (case tk_screenwidth h of
                 Inl e \<Rightarrow> info
               | Inr w \<Rightarrow>
                   (case tk_screenheight h of
                      Inl e \<Rightarrow> info\<lparr>width := w\<rparr>
                    | Inr ht \<Rightarrow> info\<lparr>width := w, height := ht\<rparr>)))"
  by (simp add: query_tkinter_def tkinter_block_def Let_def split: sum.splits)

lemma query_tkinter_total:
  "\<exists>w ht. query_tkinter h initial_info = Inr (initial_info\<lparr>width := w, height := ht\<rparr>)"
proof -
  have keep: "initial_info = initial_info\<lparr>width := 1024, height := 768\<rparr>"
    by (simp add: initial_info_def)
  have half: "\<And>w. initial_info\<lparr>width := w\<rparr> = initial_info\<lparr>width := w, height := 768\<rparr>"
    by (simp add: initial_info_def)
  show ?thesis
    unfolding query_tkinter_eq
    by (cases "tk_open h"; cases "tk_screenwidth h"; cases "tk_screenheight h")
      (use keep half in \<open>simp_all, blast+\<close>)
qed

lemma size_stage_eq:
  "try_except (query_xrandr h initial_info) (query_tkinter h initial_info) =
     (case and_then (xrandr h) (\<lambda>result. xrandr_resolution (stdout result)) of
        Inr (Some (w, ht)) \<Rightarrow> Inr (initial_info\<lparr>width := w, height := ht\<rparr>)
      | Inr None \<Rightarrow> Inr initial_info
      | Inl e \<Rightarrow> query_tkinter h initial_info)"
  by (auto simp: try_except_def query_xrandr_def and_then_def
      split: sum.splits option.splits prod.splits)

lemma size_stage_total:
  "\<exists>w ht. try_except (query_xrandr h initial_info) (query_tkinter h initial_info) =
     Inr (initial_info\<lparr>width := w, height := ht\<rparr>)"
proof (cases "and_then (xrandr h) (\<lambda>result. xrandr_resolution (stdout result))")
  case (Inl e)
  then show ?thesis unfolding size_stage_eq using query_tkinter_total [of h] by simp
next
  case (Inr found)
  have keep: "initial_info = initial_info\<lparr>width := 1024, height := 768\<rparr>"
    by (simp add: initial_info_def)
  show ?thesis
  proof (cases found)
    case None
    then show ?thesis unfolding size_stage_eq using Inr keep by (simp, blast)
  next
    case (Some p)
    then show ?thesis unfolding size_stage_eq using Inr by (cases p) auto
  qed
qed

lemma detect_screen_info_total: "\<exists>info. detect_screen_info env methods h = Inr info"
  using size_stage_total [of h]
  by (auto simp: detect_screen_info_def and_then_def Let_def)

lemma detect_screen_info_flags:
  assumes "detect_screen_info env methods h = Inr info"
  shows "is_small_screen info = (width info \<le> 800 \<or> height info \<le> 480)"
    and "is_touch_optimized info = ((touchscreen methods \<and> is_small_screen info) \<or> is_pi env)"
    and "dpi info = 96"
  using assms size_stage_total [of h]
  by (auto simp: detect_screen_info_def and_then_def Let_def initial_info_def)

lemma detect_screen_info_size:
  assumes "detect_screen_info env methods h = Inr info"
  shows "(width info, height info) =
     (case and_then (xrandr h) (\<lambda>result. xrandr_resolution (stdout result)) of
        Inr (Some p) \<Rightarrow> p
      | Inr None \<Rightarrow> (1024, 768)
      | Inl e \<Rightarrow>
          (case tk_open h of
             Inl e1 \<Rightarrow> (1024, 768)
           | Inr root \<Rightarrow>
               (case tk_screenwidth h of
                  Inl e2 \<Rightarrow> (1024, 768)
                | Inr w \<Rightarrow>
                    (case tk_screenheight h of
                       Inl e3 \<Rightarrow> (w, 768)
                     | Inr ht \<Rightarrow> (w, ht)))))"
  using assms unfolding detect_screen_info_def size_stage_eq unfolding query_tkinter_eq
  by (auto simp: and_then_def Let_def initial_info_def split: sum.splits option.splits prod.splits)

lemma detect_environment_total: "\<exists>env. detect_environment h = Inr env"
  by (simp add: detect_environment_eq)

lemma detect_input_methods_total: "\<exists>methods. detect_input_methods h = Inr methods"
  by (simp add: detect_input_methods_eq)

lemma EnvironmentDetector_total: "\<exists>d. EnvironmentDetector h = Inr d"
proof -
  obtain env where e: "detect_environment h = Inr env"
    using detect_environment_total by blast
  obtain methods where m: "detect_input_methods h = Inr methods"
    using detect_input_methods_total by blast
  obtain info where i: "detect_screen_info env methods h = Inr info"
    using detect_screen_info_total by blast
  show ?thesis
    by (simp add: EnvironmentDetector_def and_then_def e m i)
qed

lemma EnvironmentDetector_parts:
  assumes "EnvironmentDetector h = Inr d"
  shows "detect_environment h = Inr (environment d)"
    and "detect_input_methods h = Inr (input_methods d)"
    and "detect_screen_info (environment d) (input_methods d) h = Inr (screen_info d)"
  using assms
  by (auto simp: EnvironmentDetector_def and_then_def split: sum.splits)

section \<open>Window mode\<close>

text \<open>
  Claim C1. The window mode follows the class of the machine in a fixed order: class
  \<open>gaming_console\<close> gives \<open>fullscreen_console\<close>; class \<open>raspberry_pi\<close> with a
  touch-optimised screen gives \<open>touchscreen\<close>; class \<open>desktop\<close> gives \<open>desktop\<close>;
  anything else gives \<open>minimal\<close>. Every descriptor the detector returns with
  \<open>is_console\<close> set gives \<open>fullscreen_console\<close>, whatever \<open>is_pi\<close> is.
\<close>

theorem setup_window_priority:
  "(\<forall>env screen.
      window_mode (setup_window env screen) =
        (if type env = ''gaming_console'' then ''fullscreen_console''
         else if type env = ''raspberry_pi'' \<and> is_touch_optimized screen then ''touchscreen''
         else if type env = ''desktop'' then ''desktop''
         else ''minimal''))
   \<and> (\<forall>h d. EnvironmentDetector h = Inr d \<and> is_console (environment d) \<longrightarrow>
          window_mode (setup_window (environment d) (screen_info d)) = ''fullscreen_console'')"
proof (intro conjI allI impI)
  fix env screen
  show "window_mode (setup_window env screen) =
        (if type env = ''gaming_console'' then ''fullscreen_console''
         else if type env = ''raspberry_pi'' \<and> is_touch_optimized screen then ''touchscreen''
         else if type env = ''desktop'' then ''desktop''
         else ''minimal'')"
    by (simp add: setup_window_def)
next
  fix h d
  assume a: "EnvironmentDetector h = Inr d \<and> is_console (environment d)"
  then have "detect_environment h = Inr (environment d)"
    by (simp add: EnvironmentDetector_parts)
  then have "environment d = projr (detect_environment h)" by simp
  then have "type (environment d) = ''gaming_console''"
    using a by (simp add: detect_environment_eq split: if_splits)
  then show "window_mode (setup_window (environment d) (screen_info d)) = ''fullscreen_console''"
    by (simp add: setup_window_def)
qed

theorem setup_window_priority_witness:
  "EnvironmentDetector pi_console_host =
     Inr \<lparr>environment =
            \<lparr>type = ''gaming_console'', is_pi = True, is_desktop = False, is_console = True,
             has_systemd = False, desktop_environment = None\<rparr>,
          input_methods = initial_methods,
          screen_info = initial_info\<lparr>is_touch_optimized := True\<rparr>\<rparr>
   \<and> window_mode (setup_window
         \<lparr>type = ''gaming_console'', is_pi = True, is_desktop = False, is_console = True,
          has_systemd = False, desktop_environment = None\<rparr>
         (initial_info\<lparr>is_touch_optimized := True\<rparr>)) = ''fullscreen_console''"
proof -
  let ?d = "\<lparr>environment =
            \<lparr>type = ''gaming_console'', is_pi = True, is_desktop = False, is_console = True,
             has_systemd = False, desktop_environment = None\<rparr>,
          input_methods = initial_methods,
          screen_info = initial_info\<lparr>is_touch_optimized := True\<rparr>\<rparr>"
  have e: "EnvironmentDetector pi_console_host = Inr ?d"
    by code_simp
  have c: "is_console (environment ?d)" by simp
  have "window_mode (setup_window (environment ?d) (screen_info ?d)) = ''fullscreen_console''"
    using setup_window_priority e c by blast
  then show ?thesis using e by simp
qed

section \<open>Machine class\<close>

lemma desktop_signal_iff:
  "desktop_signal h \<longleftrightarrow>
     (\<exists>s. s \<noteq> [] \<and> (DESKTOP_SESSION h = Some s \<or> XDG_CURRENT_DESKTOP h = Some s))"
  by (auto simp: desktop_signal_def desktop_value_def py_or_def split: option.splits if_splits)

text \<open>
  Claim C2, as stated, fails: on a machine whose CPU file names a BCM chip and whose
  \<open>DESKTOP_SESSION\<close> is set the class is \<open>raspberry_pi\<close>, not \<open>desktop\<close>; with a
  handheld model string as well it is \<open>gaming_console\<close>.
\<close>

theorem desktop_precedence_counterexample:
  "DESKTOP_SESSION pi_desktop_host = Some ''LXDE-pi''
   \<and> detect_environment pi_desktop_host =
       Inr \<lparr>type = ''raspberry_pi'', is_pi = True, is_desktop = True, is_console = False,
            has_systemd = False, desktop_environment = Some ''lxde-pi''\<rparr>
   \<and> DESKTOP_SESSION all_signals_host = Some ''LXDE-pi''
   \<and> detect_environment all_signals_host =
       Inr \<lparr>type = ''gaming_console'', is_pi = True, is_desktop = True, is_console = True,
            has_systemd = False, desktop_environment = Some ''lxde-pi''\<rparr>"
  by code_simp

text \<open>
  Claim C2, amended. The class is resolved in the order handheld, single-board computer,
  desktop: \<open>gaming_console\<close> when the handheld signal fires, else \<open>raspberry_pi\<close> when
  the single-board signal fires, else \<open>desktop\<close> when a desktop session is named, else
  \<open>minimal_linux\<close>. A desktop session is named exactly when one of the two variables
  holds a non-empty value; then \<open>is_desktop\<close> is set and the lower-cased value recorded,
  whatever the class.
\<close>

theorem machine_class_precedence:
  assumes "detect_environment h = Inr env"
  shows "type env =
           (if console_signal h then ''gaming_console''
            else if pi_signal h then ''raspberry_pi''
            else if desktop_signal h then ''desktop''
            else ''minimal_linux'')
       \<and> is_console env = console_signal h
       \<and> is_pi env = pi_signal h
       \<and> is_desktop env = desktop_signal h
       \<and> desktop_environment env =
           (if desktop_signal h then map_option py_lower (desktop_value h) else None)
       \<and> desktop_signal h =
           (\<exists>s. s \<noteq> [] \<and> (DESKTOP_SESSION h = Some s \<or> XDG_CURRENT_DESKTOP h = Some s))"
proof -
  have "env = projr (detect_environment h)" using assms by simp
  then show ?thesis
    unfolding detect_environment_eq using desktop_signal_iff [of h] by simp
qed

theorem machine_class_precedence_witness:
  "detect_environment pi_desktop_host =
       Inr \<lparr>type = ''raspberry_pi'', is_pi = True, is_desktop = True, is_console = False,
            has_systemd = False, desktop_environment = Some ''lxde-pi''\<rparr>
   \<and> pi_signal pi_desktop_host \<and> desktop_signal pi_desktop_host
   \<and> \<not> console_signal pi_desktop_host"
proof -
  have e: "detect_environment pi_desktop_host =
       Inr \<lparr>type = ''raspberry_pi'', is_pi = True, is_desktop = True, is_console = False,
            has_systemd = False, desktop_environment = Some ''lxde-pi''\<rparr>"
    by code_simp
  show ?thesis using machine_class_precedence [OF e] e by simp
qed

text \<open>
  Claim C10. The CPU file is read in full by the first test; the second test reads the
  exhausted handle and sees the empty text. So \<open>is_pi\<close> is set exactly when \<open>BCM\<close>
  occurs in the file, and a file naming \<open>Raspberry\<close> without \<open>BCM\<close> leaves it unset.
\<close>

theorem cpuinfo_marker_only_bcm:
  assumes "detect_environment h = Inr env"
  shows "(is_pi env \<longleftrightarrow>
            (\<exists>content pre suf. cpuinfo h = Inr content \<and> content = pre @ ''BCM'' @ suf))
       \<and> (\<forall>content. cpuinfo h = Inr content \<and> py_in ''Raspberry'' content
              \<and> \<not> py_in ''BCM'' content \<longrightarrow> \<not> is_pi env \<and> type env \<noteq> ''raspberry_pi'')
       \<and> (\<forall>f. fst (f_read f) = f \<and> fst (f_read (snd (f_read f))) = [])"
proof -
  have env: "env = projr (detect_environment h)" using assms by simp
  have pi: "is_pi env = pi_signal h"
    unfolding env detect_environment_eq by simp
  have ty: "type env = ''raspberry_pi'' \<Longrightarrow> pi_signal h"
    unfolding env detect_environment_eq by (simp split: if_splits)
  have sig: "pi_signal h \<longleftrightarrow>
       (\<exists>content pre suf. cpuinfo h = Inr content \<and> content = pre @ ''BCM'' @ suf)"
    by (cases "cpuinfo h") (auto simp: pi_signal_def cpuinfo_test_eq py_in_iff)
  have no: "\<And>content. cpuinfo h = Inr content \<Longrightarrow> \<not> py_in ''BCM'' content \<Longrightarrow> \<not> pi_signal h"
    by (simp add: pi_signal_def cpuinfo_test_eq)
  show ?thesis
    using pi ty sig no by (auto simp: f_read_def)
qed

theorem cpuinfo_marker_only_bcm_witness:
  "cpuinfo raspberry_only_host = Inr ''Model : Raspberry Pi 4 Model B''
   \<and> py_in ''Raspberry'' ''Model : Raspberry Pi 4 Model B''
   \<and> \<not> py_in ''BCM'' ''Model : Raspberry Pi 4 Model B''
   \<and> detect_environment raspberry_only_host =
       Inr \<lparr>type = ''minimal_linux'', is_pi = False, is_desktop = False, is_console = False,
            has_systemd = False, desktop_environment = None\<rparr>"
proof -
  have e: "detect_environment raspberry_only_host =
       Inr \<lparr>type = ''minimal_linux'', is_pi = False, is_desktop = False, is_console = False,
            has_systemd = False, desktop_environment = None\<rparr>"
    by code_simp
  have c: "cpuinfo raspberry_only_host = Inr ''Model : Raspberry Pi 4 Model B''"
    by code_simp
  have r: "py_in ''Raspberry'' ''Model : Raspberry Pi 4 Model B''" by code_simp
  have b: "\<not> py_in ''BCM'' ''Model : Raspberry Pi 4 Model B''" by code_simp
  have "\<not> is_pi \<lparr>type = ''minimal_linux'', is_pi = False, is_desktop = False,
            is_console = False, has_systemd = False, desktop_environment = None\<rparr>"
    using cpuinfo_marker_only_bcm [OF e] c r b by blast
  then show ?thesis using e c r b by simp
qed

section \<open>Screen flags and font size\<close>

text \<open>
  Claim C7. Whatever the detected size, touchscreen flag and single-board flag,
  \<open>is_touch_optimized\<close> holds exactly when the touchscreen is present on a small screen
  or the machine is a single-board computer; the four combinations of the two flags are
  evaluated on a small screen.
\<close>

theorem touch_optimized_rule:
  assumes "detect_screen_info env methods h = Inr info"
  shows "is_touch_optimized info \<longleftrightarrow>
           (touchscreen methods \<and> is_small_screen info) \<or> is_pi env"
  using detect_screen_info_flags(2) [OF assms] by simp

theorem touch_optimized_rule_witness:
  "detect_screen_info (initial_environment\<lparr>is_pi := False\<rparr>)
       (initial_methods\<lparr>touchscreen := False\<rparr>) small_tk_host =
     Inr \<lparr>width = 800, height = 480, dpi = 96, is_small_screen = True,
          is_touch_optimized = False\<rparr>
   \<and> detect_screen_info (initial_environment\<lparr>is_pi := False\<rparr>)
       (initial_methods\<lparr>touchscreen := True\<rparr>) small_tk_host =
     Inr \<lparr>width = 800, height = 480, dpi = 96, is_small_screen = True,
          is_touch_optimized = True\<rparr>
   \<and> detect_screen_info (initial_environment\<lparr>is_pi := True\<rparr>)
       (initial_methods\<lparr>touchscreen := False\<rparr>) small_tk_host =
     Inr \<lparr>width = 800, height = 480, dpi = 96, is_small_screen = True,
          is_touch_optimized = True\<rparr>
   \<and> detect_screen_info (initial_environment\<lparr>is_pi := True\<rparr>)
       (initial_methods\<lparr>touchscreen := True\<rparr>) small_tk_host =
     Inr \<lparr>width = 800, height = 480, dpi = 96, is_small_screen = True,
          is_touch_optimized = True\<rparr>
   \<and> detect_screen_info (initial_environment\<lparr>is_pi := False\<rparr>)
       (initial_methods\<lparr>touchscreen := True\<rparr>) bare_host =
     Inr \<lparr>width = 1024, height = 768, dpi = 96, is_small_screen = False,
          is_touch_optimized = False\<rparr>"
proof -
  have a: "detect_screen_info (initial_environment\<lparr>is_pi := False\<rparr>)
       (initial_methods\<lparr>touchscreen := False\<rparr>) small_tk_host =
     Inr \<lparr>width = 800, height = 480, dpi = 96, is_small_screen = True,
          is_touch_optimized = False\<rparr>"
    by code_simp
  have b: "detect_screen_info (initial_environment\<lparr>is_pi := False\<rparr>)
       (initial_methods\<lparr>touchscreen := True\<rparr>) small_tk_host =
     Inr \<lparr>width = 800, height = 480, dpi = 96, is_small_screen = True,
          is_touch_optimized = True\<rparr>"
    by code_simp
  have c: "detect_screen_info (initial_environment\<lparr>is_pi := True\<rparr>)
       (initial_methods\<lparr>touchscreen := False\<rparr>) small_tk_host =
     Inr \<lparr>width = 800, height = 480, dpi = 96, is_small_screen = True,
          is_touch_optimized = True\<rparr>"
    by code_simp
  have d: "detect_screen_info (initial_environment\<lparr>is_pi := True\<rparr>)
       (initial_methods\<lparr>touchscreen := True\<rparr>) small_tk_host =
     Inr \<lparr>width = 800, height = 480, dpi = 96, is_small_screen = True,
          is_touch_optimized = True\<rparr>"
    by code_simp
  have e: "detect_screen_info (initial_environment\<lparr>is_pi := False\<rparr>)
       (initial_methods\<lparr>touchscreen := True\<rparr>) bare_host =
     Inr \<lparr>width = 1024, height = 768, dpi = 96, is_small_screen = False,
          is_touch_optimized = False\<rparr>"
    by code_simp
  note touch_optimized_rule [OF a] touch_optimized_rule [OF b] touch_optimized_rule [OF c]
    touch_optimized_rule [OF d] touch_optimized_rule [OF e]
  then show ?thesis using a b c d e by simp
qed

text \<open>
  Claim C8. \<open>is_small_screen\<close> holds exactly when the detected width is at most 800 or
  the detected height is at most 480: it holds at 800 by 480 and at 800 by 481, and
  fails at 801 by 481.
\<close>

theorem small_screen_rule:
  assumes "detect_screen_info env methods h = Inr info"
  shows "(is_small_screen info \<longleftrightarrow> width info \<le> 800 \<or> height info \<le> 480)
       \<and> (width info = 800 \<and> height info = 480 \<longrightarrow> is_small_screen info)
       \<and> (width info = 800 \<and> height info = 481 \<longrightarrow> is_small_screen info)
       \<and> (width info = 801 \<and> height info = 481 \<longrightarrow> \<not> is_small_screen info)"
  using detect_screen_info_flags(1) [OF assms] by simp

theorem small_screen_rule_witness:
  "detect_screen_info initial_environment initial_methods
       (tk_host 800 480) =
     Inr \<lparr>width = 800, height = 480, dpi = 96, is_small_screen = True,
          is_touch_optimized = False\<rparr>
   \<and> detect_screen_info initial_environment initial_methods
       (tk_host 800 481) =
     Inr \<lparr>width = 800, height = 481, dpi = 96, is_small_screen = True,
          is_touch_optimized = False\<rparr>
   \<and> detect_screen_info initial_environment initial_methods
       (tk_host 801 481) =
     Inr \<lparr>width = 801, height = 481, dpi = 96, is_small_screen = False,
          is_touch_optimized = False\<rparr>"
proof -
  have a: "detect_screen_info initial_environment initial_methods
       (tk_host 800 480) =
     Inr \<lparr>width = 800, height = 480, dpi = 96, is_small_screen = True,
          is_touch_optimized = False\<rparr>"
    by code_simp
  have b: "detect_screen_info initial_environment initial_methods
       (tk_host 800 481) =
     Inr \<lparr>width = 800, height = 481, dpi = 96, is_small_screen = True,
          is_touch_optimized = False\<rparr>"
    by code_simp
  have c: "detect_screen_info initial_environment initial_methods
       (tk_host 801 481) =
     Inr \<lparr>width = 801, height = 481, dpi = 96, is_small_screen = False,
          is_touch_optimized = False\<rparr>"
    by code_simp
  note small_screen_rule [OF a] small_screen_rule [OF b] small_screen_rule [OF c]
  then show ?thesis using a b c by simp
qed

text \<open>
  Claim C9. The font size is the base size plus 4 on a touch-optimised screen, else the
  base size plus 2 on a small screen, else the base size.
\<close>

theorem font_size_rule:
  "get_font_size screen base_size =
     (if is_touch_optimized screen then base_size + 4
      else if is_small_screen screen then base_size + 2
      else base_size)"
  by (simp add: get_font_size_def)

theorem font_size_rule_witness:
  "get_font_size (initial_info\<lparr>is_small_screen := True, is_touch_optimized := True\<rparr>) 10 = 14
   \<and> get_font_size (initial_info\<lparr>is_small_screen := True\<rparr>) 10 = 12
   \<and> get_font_size initial_info 10 = 10"
  using font_size_rule [of "initial_info\<lparr>is_small_screen := True, is_touch_optimized := True\<rparr>" 10]
    font_size_rule [of "initial_info\<lparr>is_small_screen := True\<rparr>" 10]
    font_size_rule [of initial_info 10]
  by (simp add: initial_info_def)

section \<open>Fault tolerance of detection\<close>

text \<open>
  Claim C4. Detection never raises: for every outcome of the probes the constructor
  returns a descriptor. A failed read of the CPU file leaves \<open>is_pi\<close> unset, a failed
  read of the device model leaves \<open>is_console\<close> unset, device queries that all fail
  leave \<open>touchscreen\<close> unset. When the display query raises (the program cannot be
  started, or the numbers cannot be converted), a toolkit that cannot be opened or
  fails on the width leaves the size at 1024 by 768, and a toolkit that fails on the
  height leaves the height at 768. When every probe fails the descriptor is the
  all-default one: class \<open>minimal_linux\<close>, keyboard only, 1024 by 768.
\<close>

theorem detection_never_raises:
  "(\<exists>d. EnvironmentDetector h = Inr d)
   \<and> (\<forall>d. EnvironmentDetector h = Inr d \<longrightarrow>
          (isl (cpuinfo h) \<longrightarrow> \<not> is_pi (environment d))
        \<and> (isl (device_tree_model h) \<longrightarrow> \<not> is_console (environment d))
        \<and> (list_all (\<lambda>device. isl (udevadm_info h device)) (event_devices h) \<longrightarrow>
             \<not> touchscreen (input_methods d))
        \<and> (isl (and_then (xrandr h) (\<lambda>result. xrandr_resolution (stdout result)))
             \<and> (isl (tk_open h) \<or> isl (tk_screenwidth h)) \<longrightarrow>
             width (screen_info d) = 1024 \<and> height (screen_info d) = 768)
        \<and> (isl (and_then (xrandr h) (\<lambda>result. xrandr_resolution (stdout result)))
             \<and> isl (tk_screenheight h) \<longrightarrow>
             height (screen_info d) = 768))
   \<and> (isl (cpuinfo h) \<and> isl (device_tree_model h)
        \<and> DESKTOP_SESSION h = None \<and> XDG_CURRENT_DESKTOP h = None \<and> \<not> systemd_system h
        \<and> list_all (\<lambda>device. isl (udevadm_info h device)) (event_devices h)
        \<and> mouse_devices h = [] \<and> js_devices h = []
        \<and> isl (xrandr h) \<and> isl (tk_open h) \<longrightarrow>
      EnvironmentDetector h = Inr default_detector)"
proof (intro conjI allI impI)
  show "\<exists>d. EnvironmentDetector h = Inr d" by (rule EnvironmentDetector_total)
next
  fix d assume d: "EnvironmentDetector h = Inr d" and f: "isl (cpuinfo h)"
  have "environment d = projr (detect_environment h)"
    using EnvironmentDetector_parts(1) [OF d] by simp
  then show "\<not> is_pi (environment d)"
    using f by (auto simp: detect_environment_eq pi_signal_def isl_def)
next
  fix d assume d: "EnvironmentDetector h = Inr d" and f: "isl (device_tree_model h)"
  have "environment d = projr (detect_environment h)"
    using EnvironmentDetector_parts(1) [OF d] by simp
  then show "\<not> is_console (environment d)"
    using f by (auto simp: detect_environment_eq console_signal_def isl_def)
next
  fix d assume d: "EnvironmentDetector h = Inr d"
    and f: "list_all (\<lambda>device. isl (udevadm_info h device)) (event_devices h)"
  have "input_methods d = projr (detect_input_methods h)"
    using EnvironmentDetector_parts(2) [OF d] by simp
  then show "\<not> touchscreen (input_methods d)"
    using find_touchscreen_all_raise [OF f] by (simp add: detect_input_methods_eq)
next
  fix d assume d: "EnvironmentDetector h = Inr d"
    and f: "isl (and_then (xrandr h) (\<lambda>result. xrandr_resolution (stdout result)))
             \<and> (isl (tk_open h) \<or> isl (tk_screenwidth h))"
  have "(width (screen_info d), height (screen_info d)) = (1024, 768)"
    using f unfolding detect_screen_info_size [OF EnvironmentDetector_parts(3) [OF d]]
    by (auto simp: isl_def split: sum.splits)
  then show "width (screen_info d) = 1024" and "height (screen_info d) = 768" by simp_all
next
  fix d assume d: "EnvironmentDetector h = Inr d"
    and f: "isl (and_then (xrandr h) (\<lambda>result. xrandr_resolution (stdout result)))
             \<and> isl (tk_screenheight h)"
  have "snd (width (screen_info d), height (screen_info d)) = 768"
    using f unfolding detect_screen_info_size [OF EnvironmentDetector_parts(3) [OF d]]
    by (auto simp: isl_def split: sum.splits)
  then show "height (screen_info d) = 768" by simp
next
  assume f: "isl (cpuinfo h) \<and> isl (device_tree_model h)
        \<and> DESKTOP_SESSION h = None \<and> XDG_CURRENT_DESKTOP h = None \<and> \<not> systemd_system h
        \<and> list_all (\<lambda>device. isl (udevadm_info h device)) (event_devices h)
        \<and> mouse_devices h = [] \<and> js_devices h = []
        \<and> isl (xrandr h) \<and> isl (tk_open h)"
  have env: "detect_environment h = Inr (initial_environment\<lparr>type := ''minimal_linux''\<rparr>)"
    using f
    by (auto simp: detect_environment_eq pi_signal_def console_signal_def desktop_signal_def
        desktop_value_def py_or_def initial_environment_def isl_def)
  have "\<not> find_touchscreen (udevadm_info h) (event_devices h)"
    using f find_touchscreen_all_raise by blast
  then have meth: "detect_input_methods h = Inr initial_methods"
    using f by (simp add: detect_input_methods_eq initial_methods_def)
  have "try_except (query_xrandr h initial_info) (query_tkinter h initial_info) = Inr initial_info"
    using f unfolding size_stage_eq unfolding query_tkinter_eq
    by (auto simp: isl_def and_then_def)
  then have scr: "detect_screen_info (initial_environment\<lparr>type := ''minimal_linux''\<rparr>)
      initial_methods h = Inr initial_info"
    by (simp add: detect_screen_info_def and_then_def Let_def initial_info_def
        initial_methods_def initial_environment_def)
  show "EnvironmentDetector h = Inr default_detector"
    by (simp add: EnvironmentDetector_def env meth scr and_then_def default_detector_def)
qed

theorem detection_never_raises_witness:
  "isl (cpuinfo bare_host) \<and> isl (device_tree_model bare_host)
   \<and> DESKTOP_SESSION bare_host = None \<and> XDG_CURRENT_DESKTOP bare_host = None
   \<and> \<not> systemd_system bare_host
   \<and> list_all (\<lambda>device. isl (udevadm_info bare_host device)) (event_devices bare_host)
   \<and> mouse_devices bare_host = [] \<and> js_devices bare_host = []
   \<and> isl (xrandr bare_host) \<and> isl (tk_open bare_host)
   \<and> EnvironmentDetector bare_host = Inr default_detector
   \<and> \<not> is_pi (environment default_detector)
   \<and> width (screen_info default_detector) = 1024
   \<and> height (screen_info default_detector) = 768
   \<and> isl (xrandr width_only_host) \<and> isl (tk_screenheight width_only_host)
   \<and> EnvironmentDetector width_only_host =
       Inr (default_detector
             \<lparr>screen_info := initial_info\<lparr>width := 800, is_small_screen := True\<rparr>\<rparr>)"
proof -
  have f: "isl (cpuinfo bare_host) \<and> isl (device_tree_model bare_host)
   \<and> DESKTOP_SESSION bare_host = None \<and> XDG_CURRENT_DESKTOP bare_host = None
   \<and> \<not> systemd_system bare_host
   \<and> list_all (\<lambda>device. isl (udevadm_info bare_host device)) (event_devices bare_host)
   \<and> mouse_devices bare_host = [] \<and> js_devices bare_host = []
   \<and> isl (xrandr bare_host) \<and> isl (tk_open bare_host)"
    by (simp add: bare_host_def)
  have e: "EnvironmentDetector bare_host = Inr default_detector"
    using detection_never_raises [of bare_host] f by blast
  have x: "isl (and_then (xrandr bare_host) (\<lambda>result. xrandr_resolution (stdout result)))
        \<and> (isl (tk_open bare_host) \<or> isl (tk_screenwidth bare_host))"
    by (simp add: bare_host_def and_then_def)
  have dflt: "\<not> is_pi (environment default_detector)
      \<and> width (screen_info default_detector) = 1024
      \<and> height (screen_info default_detector) = 768"
    using detection_never_raises [of bare_host] e f x by blast
  let ?d = "default_detector
             \<lparr>screen_info := initial_info\<lparr>width := 800, is_small_screen := True\<rparr>\<rparr>"
  have w: "EnvironmentDetector width_only_host = Inr ?d"
    by code_simp
  have wx: "isl (and_then (xrandr width_only_host) (\<lambda>result. xrandr_resolution (stdout result)))
        \<and> isl (tk_screenheight width_only_host)"
    by (simp add: width_only_host_def bare_host_def and_then_def)
  have wf: "isl (xrandr width_only_host) \<and> isl (tk_screenheight width_only_host)"
    by (simp add: width_only_host_def bare_host_def)
  have "height (screen_info ?d) = 768"
    using detection_never_raises [of width_only_host] w wx by blast
  then show ?thesis using e f dflt w wf by blast
qed

section \<open>Display detection\<close>

lemma py_in_append_left: "py_in (a @ b) s \<Longrightarrow> py_in a s"
proof -
  assume "py_in (a @ b) s"
  then obtain pre suf where "s = pre @ (a @ b) @ suf" unfolding py_in_iff by blast
  then have "s = pre @ a @ (b @ suf)" by simp
  then show "py_in a s" unfolding py_in_iff by blast
qed

lemma connected_test:
  "(py_in '' connected primary'' line \<or> py_in '' connected '' line) = py_in '' connected '' line"
proof -
  have "py_in ('' connected '' @ ''primary'') line \<Longrightarrow> py_in '' connected '' line"
    by (rule py_in_append_left)
  then show ?thesis by auto
qed

lemma scan_lines_Cons:
  "scan_lines (line # lines) =
     (if py_in '' connected '' line then scan_parts (py_split line) else scan_lines lines)"
  by (simp only: scan_lines.simps connected_test)

lemma scan_lines_first:
  "list_all (\<lambda>l. \<not> py_in '' connected '' l) before \<Longrightarrow> py_in '' connected '' line \<Longrightarrow>
     scan_lines (before @ line # after) = scan_parts (py_split line)"
proof (induction before)
  case Nil
  then show ?case by (simp only: append_Nil scan_lines_Cons if_True)
next
  case (Cons l before)
  then have "\<not> py_in '' connected '' l" by simp
  then have "scan_lines ((l # before) @ line # after) = scan_lines (before @ line # after)"
    by (simp only: append_Cons scan_lines_Cons if_False)
  then show ?case using Cons by simp
qed

text \<open>
  Claim C6, as stated, fails: the line that is parsed is the first one naming a
  connected output, primary or not. With a second monitor listed before the primary
  one, the detected size is the second monitor's 1920 by 1080, not the primary
  output's 1366 by 768.
\<close>

theorem primary_line_counterexample:
  "xrandr two_output_host =
     Inr \<lparr>returncode = 0,
          stdout = ''Screen 0: current 3286 x 1080'' @ [CHR 0x0A] @
                   ''HDMI-1 connected 1920x1080+1366+0 (normal) 527mm x 296mm'' @ [CHR 0x0A] @
                   ''eDP-1 connected primary 1366x768+0+0 (normal) 344mm x 194mm'' @ [CHR 0x0A]\<rparr>
   \<and> scan_parts (py_split ''eDP-1 connected primary 1366x768+0+0 (normal) 344mm x 194mm'') =
       Inr (Some (1366, 768))
   \<and> detect_screen_info initial_environment initial_methods two_output_host =
       Inr \<lparr>width = 1920, height = 1080, dpi = 96, is_small_screen = False,
            is_touch_optimized = False\<rparr>"
  by code_simp

text \<open>
  Claim C6, amended. Display detection reads the first line of the display server's
  status text that holds \<open>connected\<close> between two spaces, primary or not, and takes the
  size its first resolution word gives. When the query raises, because the program
  cannot be started or because the two numbers cannot be converted, the width and
  height the toolkit reports are taken instead; when the toolkit cannot be opened or
  fails on the width, the size is 1024 by 768.
\<close>

theorem display_detection_stages:
  assumes "detect_screen_info env methods h = Inr info"
  shows "(\<forall>result before line after w ht.
            xrandr h = Inr result
          \<and> py_split_on CHR 0x0A (stdout result) = before @ line # after
          \<and> list_all (\<lambda>l. \<not> py_in '' connected '' l) before
          \<and> py_in '' connected '' line
          \<and> scan_parts (py_split line) = Inr (Some (w, ht))
          \<longrightarrow> width info = w \<and> height info = ht)
       \<and> (\<forall>w ht.
            (isl (xrandr h)
             \<or> (\<exists>result. xrandr h = Inr result \<and> isl (xrandr_resolution (stdout result))))
          \<and> tk_open h = Inr () \<and> tk_screenwidth h = Inr w \<and> tk_screenheight h = Inr ht
          \<longrightarrow> width info = w \<and> height info = ht)
       \<and> ((isl (xrandr h)
             \<or> (\<exists>result. xrandr h = Inr result \<and> isl (xrandr_resolution (stdout result))))
          \<and> (isl (tk_open h) \<or> isl (tk_screenwidth h))
          \<longrightarrow> width info = 1024 \<and> height info = 768)"
proof -
  note size = detect_screen_info_size [OF assms]
  have one: "width info = w \<and> height info = ht"
    if "xrandr h = Inr result"
      and "py_split_on CHR 0x0A (stdout result) = before @ line # after"
      and "list_all (\<lambda>l. \<not> py_in '' connected '' l) before"
      and "py_in '' connected '' line"
      and "scan_parts (py_split line) = Inr (Some (w, ht))"
    for result before line after w ht
  proof -
    have "xrandr_resolution (stdout result) = Inr (Some (w, ht))"
      unfolding xrandr_resolution_def using that scan_lines_first by simp
    then have "(width info, height info) = (w, ht)"
      using size that(1) by (simp add: and_then_def)
    then show ?thesis by simp
  qed
  have raises: "isl (and_then (xrandr h) (\<lambda>result. xrandr_resolution (stdout result)))"
    if "isl (xrandr h)
        \<or> (\<exists>result. xrandr h = Inr result \<and> isl (xrandr_resolution (stdout result)))"
    using that by (auto simp: and_then_def isl_def)
  have two: "width info = w \<and> height info = ht"
    if "isl (xrandr h)
        \<or> (\<exists>result. xrandr h = Inr result \<and> isl (xrandr_resolution (stdout result)))"
      and "tk_open h = Inr ()" and "tk_screenwidth h = Inr w" and "tk_screenheight h = Inr ht"
    for w ht
  proof -
    have "(width info, height info) = (w, ht)"
      using size raises [OF that(1)] that(2,3,4) by (auto simp: isl_def)
    then show ?thesis by simp
  qed
  have three: "width info = 1024 \<and> height info = 768"
    if "isl (xrandr h)
        \<or> (\<exists>result. xrandr h = Inr result \<and> isl (xrandr_resolution (stdout result)))"
      and "isl (tk_open h) \<or> isl (tk_screenwidth h)"
  proof -
    have "(width info, height info) = (1024, 768)"
      using size raises [OF that(1)] that(2) by (auto simp: isl_def split: sum.splits)
    then show ?thesis by simp
  qed
  show ?thesis using one two three by blast
qed

theorem display_detection_stages_witness:
  "detect_screen_info initial_environment initial_methods two_output_host =
       Inr \<lparr>width = 1920, height = 1080, dpi = 96, is_small_screen = False,
            is_touch_optimized = False\<rparr>
   \<and> xrandr_resolution ''eDP-1 connected primary axb+0+0'' = Inl ValueError
   \<and> tk_open garbled_xrandr_host = Inr ()
   \<and> tk_screenwidth garbled_xrandr_host = Inr 1280
   \<and> tk_screenheight garbled_xrandr_host = Inr 720
   \<and> detect_screen_info initial_environment initial_methods garbled_xrandr_host =
       Inr \<lparr>width = 1280, height = 720, dpi = 96, is_small_screen = False,
            is_touch_optimized = False\<rparr>
   \<and> isl (xrandr bare_host) \<and> isl (tk_open bare_host)
   \<and> detect_screen_info initial_environment initial_methods bare_host =
       Inr \<lparr>width = 1024, height = 768, dpi = 96, is_small_screen = False,
            is_touch_optimized = False\<rparr>"
proof -
  let ?out = "\<lparr>returncode = 0,
        stdout = ''Screen 0: current 3286 x 1080'' @ [CHR 0x0A] @
                 ''HDMI-1 connected 1920x1080+1366+0 (normal) 527mm x 296mm'' @ [CHR 0x0A] @
                 ''eDP-1 connected primary 1366x768+0+0 (normal) 344mm x 194mm'' @ [CHR 0x0A]\<rparr>"
  let ?line = "''HDMI-1 connected 1920x1080+1366+0 (normal) 527mm x 296mm''"
  have a: "detect_screen_info initial_environment initial_methods two_output_host =
       Inr \<lparr>width = 1920, height = 1080, dpi = 96, is_small_screen = False,
            is_touch_optimized = False\<rparr>"
    by code_simp
  have a1: "xrandr two_output_host = Inr ?out" by code_simp
  have a2: "py_split_on CHR 0x0A (stdout ?out) =
      [''Screen 0: current 3286 x 1080''] @ ?line #
      [''eDP-1 connected primary 1366x768+0+0 (normal) 344mm x 194mm'', []]"
    by code_simp
  have a3: "list_all (\<lambda>l. \<not> py_in '' connected '' l) [''Screen 0: current 3286 x 1080'']"
    by code_simp
  have a4: "py_in '' connected '' ?line" by code_simp
  have a5: "scan_parts (py_split ?line) = Inr (Some (1920, 1080))" by code_simp
  have first: "width \<lparr>width = 1920, height = 1080, dpi = 96, is_small_screen = False,
            is_touch_optimized = False\<rparr> = 1920"
    using display_detection_stages [OF a] a1 a2 a3 a4 a5 by blast
  have b: "detect_screen_info initial_environment initial_methods garbled_xrandr_host =
       Inr \<lparr>width = 1280, height = 720, dpi = 96, is_small_screen = False,
            is_touch_optimized = False\<rparr>"
    by code_simp
  have b1: "xrandr_resolution ''eDP-1 connected primary axb+0+0'' = Inl ValueError"
    by code_simp
  have b2: "tk_open garbled_xrandr_host = Inr ()
      \<and> tk_screenwidth garbled_xrandr_host = Inr 1280
      \<and> tk_screenheight garbled_xrandr_host = Inr 720"
    by (simp add: garbled_xrandr_host_def tk_host_def)
  have b3: "xrandr garbled_xrandr_host =
      Inr \<lparr>returncode = 0, stdout = ''eDP-1 connected primary axb+0+0''\<rparr>"
    by (simp add: garbled_xrandr_host_def)
  have b4: "isl (xrandr garbled_xrandr_host)
      \<or> (\<exists>result. xrandr garbled_xrandr_host = Inr result
            \<and> isl (xrandr_resolution (stdout result)))"
    using b1 b3 by simp
  have second: "width \<lparr>width = 1280, height = 720, dpi = 96, is_small_screen = False,
            is_touch_optimized = False\<rparr> = 1280"
    using display_detection_stages [OF b] b2 b4 by blast
  have c: "detect_screen_info initial_environment initial_methods bare_host =
       Inr \<lparr>width = 1024, height = 768, dpi = 96, is_small_screen = False,
            is_touch_optimized = False\<rparr>"
    by code_simp
  have c1: "isl (xrandr bare_host) \<and> isl (tk_open bare_host)"
    by (simp add: bare_host_def)
  have third: "width \<lparr>width = 1024, height = 768, dpi = 96, is_small_screen = False,
            is_touch_optimized = False\<rparr> = 1024"
    using display_detection_stages [OF c] c1 by blast
  show ?thesis using a b b1 b2 c c1 first second third by simp
qed

section \<open>Preference file\<close>















section \<open>Status poll\<close>

lemma update_status_ssh_raises:
  "systemctl_is_active h ''ssh'' = Inl e \<Longrightarrow> update_status h = None"
  by (simp add: update_status_def and_then_def)

lemma update_status_bluetooth_raises:
  "systemctl_is_active h ''bluetooth'' = Inl e \<Longrightarrow> update_status h = None"
  by (simp add: update_status_def and_then_def split: sum.splits)

lemma check_network_total: "\<exists>info'. check_network h info = Inr info'"
  by (auto simp: check_network_def try_except_def and_then_def split: sum.splits list.splits)

lemma update_status_which_raises:
  "which h ''direwolf'' = Inl e \<or> which h ''qsstv'' = Inl e \<Longrightarrow> update_status h = None"
  using check_network_total
  by (auto simp: update_status_def and_then_def split: sum.splits)

lemma gui_update_status_ssh_raises:
  "systemctl_is_active h ''ssh'' = Inl e \<Longrightarrow> gui_update_status h = []"
  by (simp add: gui_update_status_def)

text \<open>
  Claim C3 does not hold of the code. When the query for the ssh service raises and
  every other query answers, the adaptive window hands no snapshot to the display and
  the plain window writes no label: the outer handler ends the poll. Only the network
  query has a handler of its own; when it raises, the network entry is recorded as
  false and the full snapshot is handed over. A query that answers with an error
  (an inactive service) is recorded as false and the poll goes on.
\<close>

theorem status_poll_aborted_by_raising_query:
  "systemctl_is_active ssh_query_raises_host ''ssh'' = Inl OSError
   \<and> update_status ssh_query_raises_host = None
   \<and> gui_update_status ssh_query_raises_host = []
   \<and> update_status hostname_raises_host =
       Some [(''ssh'', Flag True), (''bluetooth'', Flag True), (''network'', Flag False),
             (''ip'', Address None), (''direwolf'', Flag True), (''qsstv'', Flag True)]
   \<and> update_status ssh_inactive_host =
       Some [(''ssh'', Flag False), (''bluetooth'', Flag True), (''network'', Flag True),
             (''ip'', Address (Some ''192.168.1.20'')), (''direwolf'', Flag True),
             (''qsstv'', Flag True)]"
  by code_simp

end
